theory Spec2Isabelle
  imports Main "HOL-Library.Sublist"
begin

section \<open>The java subcommand of the PEG parser generator (jpegen.py)\<close>

text \<open>
  The file is glue: it parses command-line flags, calls the grammar builder, opens two
  files, constructs a generator object and calls its \<open>generate\<close> method, and reports
  failures. The model makes every effect explicit: the outcome of a call is either a raised
  exception or a value, and the world (file contents, open file handles, standard error and
  the log of calls that leave this file) is passed through every step.
\<close>

subsection \<open>Exceptions\<close>

text \<open>
  The exceptions of Python that matter here. \<open>SystemExit\<close> and \<open>KeyboardInterrupt\<close>
  derive from \<open>BaseException\<close> only, so \<open>except Exception\<close> does not catch them;
  the others derive from \<open>Exception\<close>. \<open>OtherException c m\<close> is any other exception
  of class \<open>c\<close> (a subclass of \<open>Exception\<close>) with message \<open>m\<close>.
\<close>

datatype exn =
    FileNotFoundError string
  | NameError string
  | OtherException string string
  | SystemExit int
  | KeyboardInterrupt

fun is_Exception :: "exn \<Rightarrow> bool" where
  "is_Exception (FileNotFoundError _) = True"
| "is_Exception (NameError _) = True"
| "is_Exception (OtherException _ _) = True"
| "is_Exception (SystemExit _) = False"
| "is_Exception KeyboardInterrupt = False"

fun exn_class :: "exn \<Rightarrow> string" where
  "exn_class (FileNotFoundError _) = ''FileNotFoundError''"
| "exn_class (NameError _) = ''NameError''"
| "exn_class (OtherException c _) = c"
| "exn_class (SystemExit _) = ''SystemExit''"
| "exn_class KeyboardInterrupt = ''KeyboardInterrupt''"

fun exn_message :: "exn \<Rightarrow> string" where
  "exn_message (FileNotFoundError p) = ''[Errno 2] No such file or directory: '' @ p"
| "exn_message (NameError n) = ''name '' @ n @ '' is not defined''"
| "exn_message (OtherException _ m) = m"
| "exn_message (SystemExit _) = ''''"
| "exn_message KeyboardInterrupt = ''''"

subsection \<open>The world: files, handles, standard error and the call log\<close>

type_synonym path = string

datatype mode = ReadMode | WriteMode

text \<open>
  A file object knows its name and its mode; the model identifies it with them.
\<close>

datatype file_handle = Handle path mode

text \<open>
  The calls that leave this file, with their arguments, in the order they are made. A call
  is logged when it is made, whether it returns or raises. The objects of the grammar
  builder (\<open>'g\<close>), the token tables (\<open>'k\<close>) and the generator (\<open>'gen\<close>) are opaque:
  the model is polymorphic in them.
\<close>

datatype ('g, 'k, 'gen) event =
    CallBuildParser path bool bool
  | CallOpen path mode
  | CallClose file_handle
  | CallGenerateTokenDefinitions file_handle
  | CallJavaParserGenerator 'g 'k 'k 'k file_handle bool
  | CallGenerate 'gen path

text \<open>
  The world: the contents of the files, the handles that are open, the lines written to
  standard error, the log of calls, and two things that matter when a file is closed.
  \<open>pending h\<close> is the text written to the handle \<open>h\<close> and still in its buffer:
  it reaches the file when the handle is closed. \<open>flush_error h text\<close> is how the
  operating system will fail when \<open>h\<close> is closed with \<open>text\<close> in its buffer (a
  full disk, a quota, an input/output error), if it will: \<open>Some (n, e)\<close> says that
  only the first \<open>n\<close> characters reach the file and that the close raises \<open>e\<close>.
\<close>

record ('g, 'k, 'gen) world =
  files :: "path \<rightharpoonup> string"
  open_handles :: "file_handle list"
  stderr :: "string list"
  trace :: "('g, 'k, 'gen) event list"
  pending :: "file_handle \<Rightarrow> string"
  flush_error :: "file_handle \<Rightarrow> string \<Rightarrow> (nat \<times> exn) option"

definition log_event ::
  "('g, 'k, 'gen) event \<Rightarrow> ('g, 'k, 'gen) world \<Rightarrow> ('g, 'k, 'gen) world" where
  "log_event ev w = w\<lparr>trace := trace w @ [ev]\<rparr>"

text \<open>
  The environment of a run: the collaborators that live outside this file, and the
  operating system's answer to \<open>open\<close>.
  \<^item> \<open>build_parser grammar_file verbose_tokenizer verbose_parser\<close> reads the grammar from
    the file system and returns \<open>(grammar, parser, tokenizer)\<close>, or raises;
  \<^item> \<open>generate_token_definitions\<close> reads the text behind the handle it is given and returns
    \<open>(all_tokens, exact_tokens, non_exact_tokens)\<close>, or raises;
  \<^item> \<open>JavaParserGenerator grammar all_tokens exact_tokens non_exact_tokens file skip_actions\<close>
    is the constructor of the generator, which may raise;
  \<^item> \<open>generate gen grammar_file\<close> gives the text the generator writes to its output
    handle, and the exception it raises afterwards, if any;
  \<^item> \<open>os_refuses p m\<close> is the error with which the operating system refuses to open
    \<open>p\<close> in mode \<open>m\<close> (a directory, a missing parent, permissions, an empty name), if
    it does.
  The collaborators have no effect on the modelled world other than the text that
  \<open>generate\<close> writes.
\<close>

record ('g, 'p, 't, 'k, 'gen) env =
  build_parser :: "path \<Rightarrow> bool \<Rightarrow> bool \<Rightarrow> (path \<rightharpoonup> string) \<Rightarrow> exn + ('g \<times> 'p \<times> 't)"
  generate_token_definitions :: "string \<Rightarrow> exn + ('k \<times> 'k \<times> 'k)"
  JavaParserGenerator :: "'g \<Rightarrow> 'k \<Rightarrow> 'k \<Rightarrow> 'k \<Rightarrow> file_handle \<Rightarrow> bool \<Rightarrow> exn + 'gen"
  generate :: "'gen \<Rightarrow> path \<Rightarrow> string \<times> exn option"
  os_refuses :: "path \<Rightarrow> mode \<Rightarrow> exn option"

subsection \<open>Opening and closing files\<close>

text \<open>
  \<open>open(p, "r")\<close> raises when the operating system refuses or the file does not exist.
  \<open>open(p, "w")\<close> raises when the operating system refuses; otherwise it creates the
  file, or truncates it to empty if it exists. The buffer of a new handle is empty.
\<close>

definition py_open ::
  "('g, 'p, 't, 'k, 'gen) env \<Rightarrow> path \<Rightarrow> mode \<Rightarrow> ('g, 'k, 'gen) world
     \<Rightarrow> (exn + file_handle) \<times> ('g, 'k, 'gen) world" where
  "py_open E p m w =
     (let w1 = log_event (CallOpen p m) w in
      case os_refuses E p m of
        Some e \<Rightarrow> (Inl e, w1)
      | None \<Rightarrow>
          (case m of
             ReadMode \<Rightarrow>
               (case files w1 p of
                  None \<Rightarrow> (Inl (FileNotFoundError p), w1)
                | Some _ \<Rightarrow> (Inr (Handle p ReadMode),
                             w1\<lparr>open_handles := Handle p ReadMode # open_handles w1,
                                 pending := (pending w1)(Handle p ReadMode := [])\<rparr>))
           | WriteMode \<Rightarrow>
               (Inr (Handle p WriteMode),
                w1\<lparr>files := (files w1)(p \<mapsto> []),
                    open_handles := Handle p WriteMode # open_handles w1,
                    pending := (pending w1)(Handle p WriteMode := [])\<rparr>)))"

text \<open>
  Text that leaves the buffer of a handle is appended to its file, when the handle was
  opened for writing.
\<close>

fun commit ::
  "file_handle \<Rightarrow> string \<Rightarrow> ('g, 'k, 'gen) world \<Rightarrow> ('g, 'k, 'gen) world" where
  "commit (Handle p ReadMode) s w = w"
| "commit (Handle p WriteMode) s w =
     w\<lparr>files := (files w)(p \<mapsto> (case files w p of None \<Rightarrow> [] | Some old \<Rightarrow> old) @ s)\<rparr>"

text \<open>
  \<open>f.close()\<close> flushes the buffer and closes the handle. When the flush fails, the
  close raises, the text that did not reach the file is lost, and the handle is closed all
  the same.
\<close>

definition py_close ::
  "file_handle \<Rightarrow> ('g, 'k, 'gen) world \<Rightarrow> (exn + unit) \<times> ('g, 'k, 'gen) world" where
  "py_close h w =
     (let w1 = log_event (CallClose h) w;
          text = pending w1 h;
          w2 = w1\<lparr>open_handles := remove1 h (open_handles w1),
                  pending := (pending w1)(h := [])\<rparr>
      in case flush_error w1 h text of
           None \<Rightarrow> (Inr (), commit h text w2)
         | Some (n, e) \<Rightarrow> (Inl e, commit h (take n text) w2))"

text \<open>
  \<open>with open(p, m) as f: body\<close>: the file is opened, the body runs, and the file is
  closed whether the body returns or raises. An exception of the body propagates, unless
  the close raises: then the exception of the close propagates, also when the body had
  returned.
\<close>

definition with_open ::
  "('g, 'p, 't, 'k, 'gen) env \<Rightarrow> path \<Rightarrow> mode
     \<Rightarrow> (file_handle \<Rightarrow> ('g, 'k, 'gen) world \<Rightarrow> (exn + 'a) \<times> ('g, 'k, 'gen) world)
     \<Rightarrow> ('g, 'k, 'gen) world \<Rightarrow> (exn + 'a) \<times> ('g, 'k, 'gen) world" where
  "with_open E p m body w =
     (case py_open E p m w of
        (Inl e, w1) \<Rightarrow> (Inl e, w1)
      | (Inr f, w1) \<Rightarrow>
          (case body f w1 of
             (r, w2) \<Rightarrow>
               (case py_close f w2 of
                  (Inl e, w3) \<Rightarrow> (Inl e, w3)
                | (Inr _, w3) \<Rightarrow> (r, w3))))"

text \<open>
  Reading all of a handle, and writing text to a handle: the text written goes to the
  buffer of the handle.
\<close>

fun read_handle :: "file_handle \<Rightarrow> ('g, 'k, 'gen) world \<Rightarrow> string" where
  "read_handle (Handle p m) w = (case files w p of None \<Rightarrow> [] | Some s \<Rightarrow> s)"

definition write_handle ::
  "file_handle \<Rightarrow> string \<Rightarrow> ('g, 'k, 'gen) world \<Rightarrow> ('g, 'k, 'gen) world" where
  "write_handle h s w = w\<lparr>pending := (pending w)(h := pending w h @ s)\<rparr>"

subsection \<open>Calls to the collaborators\<close>

definition call_build_parser ::
  "('g, 'p, 't, 'k, 'gen) env \<Rightarrow> path \<Rightarrow> bool \<Rightarrow> bool \<Rightarrow> ('g, 'k, 'gen) world
     \<Rightarrow> (exn + ('g \<times> 'p \<times> 't)) \<times> ('g, 'k, 'gen) world" where
  "call_build_parser E grammar_file verbose_tokenizer verbose_parser w =
     (build_parser E grammar_file verbose_tokenizer verbose_parser (files w),
      log_event (CallBuildParser grammar_file verbose_tokenizer verbose_parser) w)"

definition call_generate_token_definitions ::
  "('g, 'p, 't, 'k, 'gen) env \<Rightarrow> file_handle \<Rightarrow> ('g, 'k, 'gen) world
     \<Rightarrow> (exn + ('k \<times> 'k \<times> 'k)) \<times> ('g, 'k, 'gen) world" where
  "call_generate_token_definitions E tok_file w =
     (generate_token_definitions E (read_handle tok_file w),
      log_event (CallGenerateTokenDefinitions tok_file) w)"

definition call_JavaParserGenerator ::
  "('g, 'p, 't, 'k, 'gen) env \<Rightarrow> 'g \<Rightarrow> 'k \<Rightarrow> 'k \<Rightarrow> 'k \<Rightarrow> file_handle \<Rightarrow> bool
     \<Rightarrow> ('g, 'k, 'gen) world \<Rightarrow> (exn + 'gen) \<times> ('g, 'k, 'gen) world" where
  "call_JavaParserGenerator E grammar all_tokens exact_tok non_exact_tok file skip_actions w =
     (JavaParserGenerator E grammar all_tokens exact_tok non_exact_tok file skip_actions,
      log_event
        (CallJavaParserGenerator grammar all_tokens exact_tok non_exact_tok file skip_actions) w)"

text \<open>
  \<open>gen.generate(grammar_file)\<close> writes to the handle the generator was constructed
  with; what it wrote before raising stays in the buffer of the handle.
\<close>

definition call_generate ::
  "('g, 'p, 't, 'k, 'gen) env \<Rightarrow> 'gen \<Rightarrow> file_handle \<Rightarrow> path \<Rightarrow> ('g, 'k, 'gen) world
     \<Rightarrow> (exn + unit) \<times> ('g, 'k, 'gen) world" where
  "call_generate E gen file grammar_file w =
     (case generate E gen grammar_file of
        (text, raised) \<Rightarrow>
          (case raised of None \<Rightarrow> Inr () | Some e \<Rightarrow> Inl e,
           write_handle file text (log_event (CallGenerate gen grammar_file) w)))"

subsection \<open>build_java_generator\<close>

text \<open>
  The parameters \<open>compile_extension\<close>, \<open>verbose_c_extension\<close> and
  \<open>keep_asserts_in_extension\<close> are taken and never used, as in the source. The caller
  passes \<open>args.verbose\<close>, an integer, for \<open>verbose_c_extension\<close>.
\<close>

definition build_java_generator ::
  "('g, 'p, 't, 'k, 'gen) env \<Rightarrow> 'g \<Rightarrow> path \<Rightarrow> path \<Rightarrow> path \<Rightarrow> bool \<Rightarrow> int \<Rightarrow> bool \<Rightarrow> bool
     \<Rightarrow> ('g, 'k, 'gen) world \<Rightarrow> (exn + 'gen) \<times> ('g, 'k, 'gen) world" where
  "build_java_generator E grammar grammar_file tokens_file output_file
       compile_extension verbose_c_extension keep_asserts_in_extension skip_actions w =
     (case with_open E tokens_file ReadMode
             (\<lambda>tok_file. call_generate_token_definitions E tok_file) w of
        (Inl e, w1) \<Rightarrow> (Inl e, w1)
      | (Inr (all_tokens, exact_tok, non_exact_tok), w1) \<Rightarrow>
          with_open E output_file WriteMode
            (\<lambda>file w2.
               case call_JavaParserGenerator E grammar all_tokens exact_tok non_exact_tok
                      file skip_actions w2 of
                 (Inl e, w3) \<Rightarrow> (Inl e, w3)
               | (Inr gen, w3) \<Rightarrow>
                   (case call_generate E gen file grammar_file w3 of
                      (Inl e, w4) \<Rightarrow> (Inl e, w4)
                    | (Inr _, w4) \<Rightarrow> (Inr gen, w4)))
            w1)"

subsection \<open>build_java_parser_and_generator\<close>

definition build_java_parser_and_generator ::
  "('g, 'p, 't, 'k, 'gen) env \<Rightarrow> path \<Rightarrow> path \<Rightarrow> path \<Rightarrow> bool \<Rightarrow> bool \<Rightarrow> bool \<Rightarrow> int \<Rightarrow> bool
     \<Rightarrow> bool \<Rightarrow> ('g, 'k, 'gen) world
     \<Rightarrow> (exn + ('g \<times> 'p \<times> 't \<times> 'gen)) \<times> ('g, 'k, 'gen) world" where
  "build_java_parser_and_generator E grammar_file tokens_file output_file compile_extension
       verbose_tokenizer verbose_parser verbose_c_extension keep_asserts_in_extension
       skip_actions w =
     (case call_build_parser E grammar_file verbose_tokenizer verbose_parser w of
        (Inl e, w1) \<Rightarrow> (Inl e, w1)
      | (Inr (grammar, parser, tokenizer), w1) \<Rightarrow>
          (case build_java_generator E grammar grammar_file tokens_file output_file
                  compile_extension verbose_c_extension keep_asserts_in_extension
                  skip_actions w1 of
             (Inl e, w2) \<Rightarrow> (Inl e, w2)
           | (Inr gen, w2) \<Rightarrow> (Inr (grammar, parser, tokenizer, gen), w2)))"

subsection \<open>generate_java_code\<close>

text \<open>
  The parsed arguments: an \<open>argparse.Namespace\<close> with these attributes. The
  attribute \<open>output\<close> is the field \<open>output_arg\<close> (\<open>output\<close> is reserved).
\<close>

record args =
  grammar_filename :: string
  tokens_filename :: string
  output_arg :: string
  compile_extension :: bool
  optimized :: bool
  skip_actions :: bool
  verbose :: int

text \<open>
  The names bound in the module's namespace when \<open>generate_java_code\<close> runs: the
  imports of lines 3 to 10 and the definitions of the file itself. A name that is neither
  here nor a builtin raises \<open>NameError\<close> when it is read; no builtin is called
  \<open>traceback\<close>.
\<close>

definition module_globals :: "string list" where
  "module_globals =
     [''argparse'', ''sys'', ''Tuple'', ''__main__'', ''build'',
      ''Grammar'', ''Parser'', ''ParserGenerator'', ''Tokenizer'',
      ''JavaParserGenerator'',
      ''generate_java_code'', ''build_java_parser_and_generator'', ''build_java_generator'',
      ''java_parser'']"

definition load_global :: "string \<Rightarrow> exn + unit" where
  "load_global name = (if name \<in> set module_globals then Inr () else Inl (NameError name))"

text \<open>
  \<open>traceback.print_exception(err.__class__, err, None)\<close> prints the exception's class
  and message, with no stack trace, to standard error.
\<close>

definition print_exception :: "exn \<Rightarrow> ('g, 'k, 'gen) world \<Rightarrow> ('g, 'k, 'gen) world" where
  "print_exception err w =
     w\<lparr>stderr := stderr w @ [exn_class err @ '': '' @ exn_message err @ [CHR 0x0A]]\<rparr>"

definition stderr_write :: "string \<Rightarrow> ('g, 'k, 'gen) world \<Rightarrow> ('g, 'k, 'gen) world" where
  "stderr_write s w = w\<lparr>stderr := stderr w @ [s]\<rparr>"

text \<open>
  The handler \<open>except Exception as err\<close> of lines 32 to 37. \<open>sys.exit(1)\<close> raises
  \<open>SystemExit 1\<close>.
\<close>

definition handle_error ::
  "args \<Rightarrow> exn \<Rightarrow> ('g, 'k, 'gen) world \<Rightarrow> (exn + 'a) \<times> ('g, 'k, 'gen) world" where
  "handle_error a err w =
     (if verbose a \<noteq> 0 then (Inl err, w)
      else
        (case load_global ''traceback'' of
           Inl e \<Rightarrow> (Inl e, w)
         | Inr _ \<Rightarrow>
             (let w1 = print_exception err w;
                  w2 = stderr_write (''For full traceback, use -v'' @ [CHR 0x0A]) w1
              in (Inl (SystemExit 1), w2))))"

definition generate_java_code ::
  "('g, 'p, 't, 'k, 'gen) env \<Rightarrow> args \<Rightarrow> ('g, 'k, 'gen) world
     \<Rightarrow> (exn + ('g \<times> 'p \<times> 't \<times> 'gen)) \<times> ('g, 'k, 'gen) world" where
  "generate_java_code E a w =
     (let verbose = verbose a;
          verbose_tokenizer = (verbose \<ge> 3);
          verbose_parser = (verbose = 2 \<or> verbose \<ge> 4)
      in
        case build_java_parser_and_generator E
               (grammar_filename a) (tokens_filename a) (output_arg a) (compile_extension a)
               verbose_tokenizer verbose_parser (args.verbose a)
               (if optimized a then False else True) (skip_actions a) w of
          (Inr (grammar, parser, tokenizer, gen), w1) \<Rightarrow>
            (Inr (grammar, parser, tokenizer, gen), w1)
        | (Inl err, w1) \<Rightarrow>
            (if is_Exception err then handle_error a err w1 else (Inl err, w1)))"

text \<open>The events a run added to the log.\<close>

definition events_since ::
  "('g, 'k, 'gen) world \<Rightarrow> ('g, 'k, 'gen) world \<Rightarrow> ('g, 'k, 'gen) event list" where
  "events_since w w' = drop (length (trace w)) (trace w')"

subsection \<open>Views of the call log\<close>

fun is_build_parser_call :: "('g, 'k, 'gen) event \<Rightarrow> bool" where
  "is_build_parser_call (CallBuildParser _ _ _) = True"
| "is_build_parser_call _ = False"

fun is_generator_call :: "('g, 'k, 'gen) event \<Rightarrow> bool" where
  "is_generator_call (CallJavaParserGenerator _ _ _ _ _ _) = True"
| "is_generator_call (CallGenerate _ _) = True"
| "is_generator_call _ = False"

text \<open>
  A call without the opaque objects it carries: which routine was called, on which path or
  handle.
\<close>

datatype call =
    BuildParser path
  | Open path mode
  | Close file_handle
  | GenerateTokenDefinitions file_handle
  | Construct file_handle
  | Generate path

fun call_of :: "('g, 'k, 'gen) event \<Rightarrow> call" where
  "call_of (CallBuildParser p _ _) = BuildParser p"
| "call_of (CallOpen p m) = Open p m"
| "call_of (CallClose h) = Close h"
| "call_of (CallGenerateTokenDefinitions h) = GenerateTokenDefinitions h"
| "call_of (CallJavaParserGenerator _ _ _ _ h _) = Construct h"
| "call_of (CallGenerate _ p) = Generate p"

fun is_close :: "call \<Rightarrow> bool" where
  "is_close (Close _) = True"
| "is_close _ = False"

text \<open>
  The calls of a complete run, in order, and the same without the closing of the two files.
\<close>

definition full_run :: "path \<Rightarrow> path \<Rightarrow> path \<Rightarrow> call list" where
  "full_run grammar_file tokens_file output_file =
     [BuildParser grammar_file,
      Open tokens_file ReadMode,
      GenerateTokenDefinitions (Handle tokens_file ReadMode),
      Close (Handle tokens_file ReadMode),
      Open output_file WriteMode,
      Construct (Handle output_file WriteMode),
      Generate grammar_file,
      Close (Handle output_file WriteMode)]"

definition full_run_calls :: "path \<Rightarrow> path \<Rightarrow> path \<Rightarrow> call list" where
  "full_run_calls grammar_file tokens_file output_file =
     [BuildParser grammar_file,
      Open tokens_file ReadMode,
      GenerateTokenDefinitions (Handle tokens_file ReadMode),
      Open output_file WriteMode,
      Construct (Handle output_file WriteMode),
      Generate grammar_file]"

subsection \<open>A valid grammar file and a valid tokens file\<close>


subsection \<open>The command line of the java subcommand\<close>

text \<open>
  Lines 99 to 118 declare the arguments of the subcommand. An argument with no option
  strings is positional. \<open>argparse\<close> names the attribute of an option after its first
  long option string, with \<open>-\<close> replaced by \<open>_\<close>; an option with
  \<open>action="store_true"\<close> defaults to \<open>False\<close>, and an argument with no default
  to \<open>None\<close>.
\<close>

datatype arg_value = StrValue string | BoolValue bool | NoneValue

datatype arg_action = Store | StoreTrue

record argument =
  option_strings :: "string list"
  dest :: string
  action :: arg_action
  default_value :: arg_value

definition java_parser :: "argument list" where
  "java_parser =
     [\<lparr>option_strings = [], dest = ''grammar_filename'', action = Store,
        default_value = NoneValue\<rparr>,
      \<lparr>option_strings = [], dest = ''tokens_filename'', action = Store,
        default_value = NoneValue\<rparr>,
      \<lparr>option_strings = [''-o'', ''--output''], dest = ''output'', action = Store,
        default_value = StrValue ''Parser.java''\<rparr>,
      \<lparr>option_strings = [''--compile-extension''], dest = ''compile_extension'',
        action = StoreTrue, default_value = BoolValue False\<rparr>,
      \<lparr>option_strings = [''--optimized''], dest = ''optimized'',
        action = StoreTrue, default_value = BoolValue False\<rparr>,
      \<lparr>option_strings = [''--skip-actions''], dest = ''skip_actions'',
        action = StoreTrue, default_value = BoolValue False\<rparr>]"

text \<open>
  The parsing itself is done by \<open>argparse\<close>, of Python's standard library. Its behaviour
  on this declaration, as far as the model goes: every attribute starts at its default; a
  word that is an option string sets its attribute (a \<open>store_true\<close> option to
  \<open>True\<close>, a storing option to the next word); any other word that starts with \<open>-\<close>
  is an error; the remaining words fill the positional arguments in order, and one too
  many or too few is an error. Abbreviated and joined forms (\<open>--out\<close>, \<open>--output=X\<close>,
  \<open>-oX\<close>) are not modelled: such a word is an error here.
\<close>

type_synonym namespace = "string \<rightharpoonup> arg_value"

definition defaults :: "argument list \<Rightarrow> namespace" where
  "defaults specs = map_of (map (\<lambda>s. (dest s, default_value s)) specs)"

definition positionals :: "argument list \<Rightarrow> string list" where
  "positionals specs = map dest (filter (\<lambda>s. option_strings s = []) specs)"

fun find_option :: "argument list \<Rightarrow> string \<Rightarrow> argument option" where
  "find_option [] word = None"
| "find_option (s # specs) word =
     (if word \<in> set (option_strings s) then Some s else find_option specs word)"

fun consume :: "argument list \<Rightarrow> string list \<Rightarrow> string list \<Rightarrow> namespace \<Rightarrow> string + namespace"
  where
  "consume specs pos [] ns =
     (if pos = [] then Inr ns else Inl ''the following arguments are required'')"
| "consume specs pos (word # rest) ns =
     (case find_option specs word of
        Some s \<Rightarrow>
          (case action s of
             StoreTrue \<Rightarrow> consume specs pos rest (ns(dest s \<mapsto> BoolValue True))
           | Store \<Rightarrow>
               (case rest of
                  [] \<Rightarrow> Inl ''expected one argument''
                | v # rest' \<Rightarrow> consume specs pos rest' (ns(dest s \<mapsto> StrValue v))))
      | None \<Rightarrow>
          (if take 1 word = ''-'' then Inl ''unrecognized arguments''
           else
             (case pos of
                [] \<Rightarrow> Inl ''unrecognized arguments''
              | d # pos' \<Rightarrow> consume specs pos' rest (ns(d \<mapsto> StrValue word)))))"

definition parse_args :: "argument list \<Rightarrow> string list \<Rightarrow> string + namespace" where
  "parse_args specs argv = consume specs (positionals specs) argv (defaults specs)"

text \<open>
  The namespace that \<open>generate_java_code\<close> receives: the attributes of the subcommand,
  and \<open>verbose\<close>, the count of \<open>-v\<close> flags, which the parent parser (outside this
  file) puts there.
\<close>

definition namespace_args :: "int \<Rightarrow> namespace \<Rightarrow> args option" where
  "namespace_args v ns =
     (case (ns ''grammar_filename'', ns ''tokens_filename'', ns ''output'',
            ns ''compile_extension'', ns ''optimized'', ns ''skip_actions'') of
        (Some (StrValue g), Some (StrValue t), Some (StrValue out),
         Some (BoolValue ce), Some (BoolValue opt), Some (BoolValue sk)) \<Rightarrow>
          Some \<lparr>grammar_filename = g, tokens_filename = t, output_arg = out,
                compile_extension = ce, optimized = opt, skip_actions = sk, verbose = v\<rparr>
      | _ \<Rightarrow> None)"

definition parse_java_args :: "int \<Rightarrow> string list \<Rightarrow> string + args" where
  "parse_java_args v argv =
     (case parse_args java_parser argv of
        Inl msg \<Rightarrow> Inl msg
      | Inr ns \<Rightarrow>
          (case namespace_args v ns of
             None \<Rightarrow> Inl ''missing attribute''
           | Some a \<Rightarrow> Inr a))"

subsection \<open>Renaming the opaque objects\<close>

text \<open>
  A renaming \<open>f\<close> of the grammar objects, applied to the calls of the log and to the
  world, and renamings of grammar, parser and tokenizer applied to what the driver
  returns. They serve to say that the driver does not look into these objects.
\<close>

fun rename_event :: "('g \<Rightarrow> 'h) \<Rightarrow> ('g, 'k, 'gen) event \<Rightarrow> ('h, 'k, 'gen) event" where
  "rename_event f (CallBuildParser p vt vp) = CallBuildParser p vt vp"
| "rename_event f (CallOpen p m) = CallOpen p m"
| "rename_event f (CallClose h) = CallClose h"
| "rename_event f (CallGenerateTokenDefinitions h) = CallGenerateTokenDefinitions h"
| "rename_event f (CallJavaParserGenerator g all_tokens exact_tok non_exact_tok h sk) =
     CallJavaParserGenerator (f g) all_tokens exact_tok non_exact_tok h sk"
| "rename_event f (CallGenerate gen p) = CallGenerate gen p"

definition rename_world :: "('g \<Rightarrow> 'h) \<Rightarrow> ('g, 'k, 'gen) world \<Rightarrow> ('h, 'k, 'gen) world" where
  "rename_world f w =
     \<lparr>files = files w, open_handles = open_handles w, stderr = stderr w,
      trace = map (rename_event f) (trace w),
      pending = pending w, flush_error = flush_error w\<rparr>"

fun rename_result ::
  "('g \<Rightarrow> 'h) \<Rightarrow> ('p \<Rightarrow> 'q) \<Rightarrow> ('t \<Rightarrow> 'u) \<Rightarrow> exn + ('g \<times> 'p \<times> 't \<times> 'gen)
     \<Rightarrow> exn + ('h \<times> 'q \<times> 'u \<times> 'gen)" where
  "rename_result f fp ft (Inl e) = Inl e"
| "rename_result f fp ft (Inr (g, p, t, gen)) = Inr (f g, fp p, ft t, gen)"

subsection \<open>A concrete run\<close>

text \<open>
  An environment, a world and arguments to run the model on. The grammar builder fails
  with \<open>FileNotFoundError\<close> on a grammar file that does not exist; the operating system
  refuses to open the empty path, as it does.
\<close>

definition demo_env :: "(nat, nat, nat, nat, nat) env" where
  "demo_env =
     \<lparr>build_parser =
        (\<lambda>p vt vp fs. case fs p of None \<Rightarrow> Inl (FileNotFoundError p)
                                | Some _ \<Rightarrow> Inr (10, 20, 30)),
      generate_token_definitions = (\<lambda>text. Inr (1, 2, 3)),
      JavaParserGenerator = (\<lambda>g all_tokens exact_tok non_exact_tok file sk. Inr 40),
      generate = (\<lambda>gen p. (''class Parser {}'', None)),
      os_refuses = (\<lambda>p m. if p = [] then Some (FileNotFoundError []) else None)\<rparr>"

definition failing_env :: "(nat, nat, nat, nat, nat) env" where
  "failing_env =
     demo_env\<lparr>generate :=
       (\<lambda>gen p. (''class'', Some (OtherException ''GrammarError'' ''bad rule'')))\<rparr>"

definition demo_world :: "(nat, nat, nat) world" where
  "demo_world =
     \<lparr>files = [''python.gram'' \<mapsto> ''start: NAME'', ''Tokens'' \<mapsto> ''NAME'',
               ''Parser.java'' \<mapsto> ''old text''],
      open_handles = [], stderr = [], trace = [],
      pending = (\<lambda>h. []), flush_error = (\<lambda>h text. None)\<rparr>"

text \<open>
  The same world with a full disk: a close that has text to flush fails, and none of the
  text reaches the file.
\<close>

definition full_disk_world :: "(nat, nat, nat) world" where
  "full_disk_world =
     demo_world\<lparr>flush_error :=
       (\<lambda>h text. if text = [] then None
                  else Some (0, OtherException ''OSError''
                                  ''[Errno 28] No space left on device''))\<rparr>"

text \<open>An environment in which no file may be opened for writing.\<close>

definition read_only_env :: "(nat, nat, nat, nat, nat) env" where
  "read_only_env =
     demo_env\<lparr>os_refuses :=
       (\<lambda>p m. if m = WriteMode
               then Some (OtherException ''PermissionError'' ''[Errno 13] Permission denied'')
               else None)\<rparr>"

definition demo_args :: args where
  "demo_args =
     \<lparr>grammar_filename = ''python.gram'', tokens_filename = ''Tokens'',
      output_arg = ''Parser.java'', compile_extension = False, optimized = False,
      skip_actions = True, verbose = 0\<rparr>"

text \<open>
  The environment \<open>demo_env\<close> with a grammar builder whose objects are renamed by
  \<open>Suc\<close>.
\<close>

definition renamed_env :: "(nat, nat, nat, nat, nat) env" where
  "renamed_env =
     demo_env\<lparr>build_parser :=
       (\<lambda>p vt vp fs. case fs p of None \<Rightarrow> Inl (FileNotFoundError p)
                               | Some _ \<Rightarrow> Inr (Suc 10, Suc 20, Suc 30))\<rparr>"

section \<open>Properties\<close>

subsection \<open>What a run does, case by case\<close>

lemmas call_defs = call_build_parser_def call_generate_token_definitions_def
  call_JavaParserGenerator_def call_generate_def

lemmas file_defs = py_open_def py_close_def with_open_def log_event_def

lemmas demo_defs = demo_env_def failing_env_def demo_world_def demo_args_def
  full_disk_world_def read_only_env_def

text \<open>
  \<open>build_java_generator\<close>, path by path: the outcome, the files and the calls logged.
\<close>

lemma build_java_generator_run:
  "build_java_generator E g gf tf out ce vc ka sk w =
     (case os_refuses E tf ReadMode of
        Some e \<Rightarrow> (Inl e, w\<lparr>trace := trace w @ [CallOpen tf ReadMode]\<rparr>)
      | None \<Rightarrow>
     (case files w tf of
        None \<Rightarrow> (Inl (FileNotFoundError tf), w\<lparr>trace := trace w @ [CallOpen tf ReadMode]\<rparr>)
      | Some toks \<Rightarrow>
     (case flush_error w (Handle tf ReadMode) [] of
        Some (n, e) \<Rightarrow>
          (Inl e, w\<lparr>trace := trace w @
             [CallOpen tf ReadMode, CallGenerateTokenDefinitions (Handle tf ReadMode),
              CallClose (Handle tf ReadMode)],
             pending := (pending w)(Handle tf ReadMode := [])\<rparr>)
      | None \<Rightarrow>
     (case generate_token_definitions E toks of
        Inl e \<Rightarrow>
          (Inl e, w\<lparr>trace := trace w @
             [CallOpen tf ReadMode, CallGenerateTokenDefinitions (Handle tf ReadMode),
              CallClose (Handle tf ReadMode)],
             pending := (pending w)(Handle tf ReadMode := [])\<rparr>)
      | Inr (all_tokens, exact_tok, non_exact_tok) \<Rightarrow>
     (case os_refuses E out WriteMode of
        Some e \<Rightarrow>
          (Inl e, w\<lparr>trace := trace w @
             [CallOpen tf ReadMode, CallGenerateTokenDefinitions (Handle tf ReadMode),
              CallClose (Handle tf ReadMode), CallOpen out WriteMode],
             pending := (pending w)(Handle tf ReadMode := [])\<rparr>)
      | None \<Rightarrow>
     (case JavaParserGenerator E g all_tokens exact_tok non_exact_tok (Handle out WriteMode) sk of
        Inl e \<Rightarrow>
          (case flush_error w (Handle out WriteMode) [] of
             Some (n, e') \<Rightarrow> Inl e' | None \<Rightarrow> Inl e,
           w\<lparr>files := (files w)(out \<mapsto> []),
             trace := trace w @
             [CallOpen tf ReadMode, CallGenerateTokenDefinitions (Handle tf ReadMode),
              CallClose (Handle tf ReadMode), CallOpen out WriteMode,
              CallJavaParserGenerator g all_tokens exact_tok non_exact_tok (Handle out WriteMode) sk,
              CallClose (Handle out WriteMode)],
             pending := (pending w)(Handle tf ReadMode := [], Handle out WriteMode := [])\<rparr>)
      | Inr gen \<Rightarrow>
          (case flush_error w (Handle out WriteMode) (fst (generate E gen gf)) of
             Some (n, e') \<Rightarrow> Inl e'
           | None \<Rightarrow> (case snd (generate E gen gf) of None \<Rightarrow> Inr gen | Some e \<Rightarrow> Inl e),
           w\<lparr>files := (files w)(out \<mapsto>
               (case flush_error w (Handle out WriteMode) (fst (generate E gen gf)) of
                  Some (n, e') \<Rightarrow> take n (fst (generate E gen gf))
                | None \<Rightarrow> fst (generate E gen gf))),
             trace := trace w @
             [CallOpen tf ReadMode, CallGenerateTokenDefinitions (Handle tf ReadMode),
              CallClose (Handle tf ReadMode), CallOpen out WriteMode,
              CallJavaParserGenerator g all_tokens exact_tok non_exact_tok (Handle out WriteMode) sk,
              CallGenerate gen gf,
              CallClose (Handle out WriteMode)],
             pending := (pending w)(Handle tf ReadMode := [], Handle out WriteMode := [])\<rparr>)))))))"
  unfolding build_java_generator_def call_defs file_defs write_handle_def
  by (auto simp: Let_def split: option.splits sum.splits prod.splits)

lemma handle_error_eq:
  "handle_error a err w = (Inl (if verbose a \<noteq> 0 then err else NameError ''traceback''), w)"
  by (simp add: handle_error_def load_global_def module_globals_def)

lemma build_java_parser_and_generator_run:
  "build_java_parser_and_generator E gf tf out ce vt vp vc ka sk w =
     (case build_parser E gf vt vp (files w) of
        Inl e \<Rightarrow> (Inl e, w\<lparr>trace := trace w @ [CallBuildParser gf vt vp]\<rparr>)
      | Inr (g, p, t) \<Rightarrow>
          (case build_java_generator E g gf tf out ce vc ka sk
                  (w\<lparr>trace := trace w @ [CallBuildParser gf vt vp]\<rparr>) of
             (Inl e, w2) \<Rightarrow> (Inl e, w2)
           | (Inr gen, w2) \<Rightarrow> (Inr (g, p, t, gen), w2)))"
  by (simp add: build_java_parser_and_generator_def call_build_parser_def log_event_def
      split: sum.splits prod.splits)

lemma generate_java_code_run:
  "generate_java_code E a w =
     (case build_java_parser_and_generator E
               (grammar_filename a) (tokens_filename a) (output_arg a) (compile_extension a)
               (verbose a \<ge> 3) (verbose a = 2 \<or> verbose a \<ge> 4) (verbose a)
               (\<not> optimized a) (skip_actions a) w of
        (Inr r, w1) \<Rightarrow> (Inr r, w1)
      | (Inl err, w1) \<Rightarrow>
          (Inl (if is_Exception err \<and> verbose a = 0 then NameError ''traceback'' else err), w1))"
  by (simp add: generate_java_code_def handle_error_eq Let_def split: sum.splits prod.splits)

lemma generate_java_code_world:
  "snd (generate_java_code E a w) =
   snd (build_java_parser_and_generator E
               (grammar_filename a) (tokens_filename a) (output_arg a) (compile_extension a)
               (verbose a \<ge> 3) (verbose a = 2 \<or> verbose a \<ge> 4) (verbose a)
               (\<not> optimized a) (skip_actions a) w)"
  by (simp add: generate_java_code_run split: sum.splits prod.splits)

lemma build_java_parser_and_generator_world:
  "snd (build_java_parser_and_generator E gf tf out ce vt vp vc ka sk w) =
     (case build_parser E gf vt vp (files w) of
        Inl e \<Rightarrow> w\<lparr>trace := trace w @ [CallBuildParser gf vt vp]\<rparr>
      | Inr (g, p, t) \<Rightarrow>
          snd (build_java_generator E g gf tf out ce vc ka sk
                  (w\<lparr>trace := trace w @ [CallBuildParser gf vt vp]\<rparr>)))"
  by (simp add: build_java_parser_and_generator_run split: sum.splits prod.splits)

text \<open>
  The calls of a run of \<open>generate_java_code\<close>: the call of \<open>build_parser\<close>, then
  those of \<open>build_java_generator\<close> if the grammar was built. The calls that
  \<open>build_java_generator\<close> makes do not depend on the log so far.
\<close>

lemma build_java_generator_events_frame:
  "events_since (w\<lparr>trace := tr\<rparr>)
      (snd (build_java_generator E g gf tf out ce vc ka sk (w\<lparr>trace := tr\<rparr>))) =
   events_since w (snd (build_java_generator E g gf tf out ce vc ka sk w))"
  by (simp add: build_java_generator_run events_since_def
      split: sum.splits option.splits prod.splits)

lemma build_java_generator_trace:
  "trace (snd (build_java_generator E g gf tf out ce vc ka sk w)) =
   trace w @ events_since w (snd (build_java_generator E g gf tf out ce vc ka sk w))"
  by (simp add: build_java_generator_run events_since_def
      split: sum.splits option.splits prod.splits)

lemma generate_java_code_events:
  "events_since w (snd (generate_java_code E a w)) =
     CallBuildParser (grammar_filename a) (verbose a \<ge> 3) (verbose a = 2 \<or> verbose a \<ge> 4) #
     (case build_parser E (grammar_filename a) (verbose a \<ge> 3)
             (verbose a = 2 \<or> verbose a \<ge> 4) (files w) of
        Inl e \<Rightarrow> []
      | Inr (g, p, t) \<Rightarrow>
          events_since w (snd (build_java_generator E g (grammar_filename a) (tokens_filename a)
             (output_arg a) (compile_extension a) (verbose a) (\<not> optimized a)
             (skip_actions a) w)))"
proof (cases "build_parser E (grammar_filename a) (verbose a \<ge> 3)
                (verbose a = 2 \<or> verbose a \<ge> 4) (files w)")
  case (Inl e)
  then show ?thesis
    by (simp add: generate_java_code_world build_java_parser_and_generator_world
        events_since_def)
next
  case (Inr r)
  obtain g p t where r: "r = (g, p, t)" by (cases r) auto
  let ?tr = "trace w @ [CallBuildParser (grammar_filename a) (verbose a \<ge> 3)
                (verbose a = 2 \<or> verbose a \<ge> 4)]"
  let ?w1 = "w\<lparr>trace := ?tr\<rparr>"
  let ?R = "build_java_generator E g (grammar_filename a) (tokens_filename a)
             (output_arg a) (compile_extension a) (verbose a) (\<not> optimized a)
             (skip_actions a)"
  have "trace (snd (?R ?w1)) = trace ?w1 @ events_since ?w1 (snd (?R ?w1))"
    by (rule build_java_generator_trace)
  then have "trace (snd (?R ?w1)) = ?tr @ events_since w (snd (?R w))"
    by (simp add: build_java_generator_events_frame)
  then have "events_since w (snd (?R ?w1)) =
      CallBuildParser (grammar_filename a) (verbose a \<ge> 3) (verbose a = 2 \<or> verbose a \<ge> 4) #
      events_since w (snd (?R w))"
    by (simp add: events_since_def)
  with Inr r show ?thesis
    by (simp add: generate_java_code_world build_java_parser_and_generator_world)
qed

lemma build_java_generator_no_build_parser_call:
  "filter is_build_parser_call
     (events_since w (snd (build_java_generator E g gf tf out ce vc ka sk w))) = []"
  by (simp add: build_java_generator_run events_since_def
      split: sum.splits option.splits prod.splits)

lemma build_java_generator_stderr:
  "stderr (snd (build_java_generator E g gf tf out ce vc ka sk w)) = stderr w"
  by (simp add: build_java_generator_run split: sum.splits option.splits prod.splits)

lemma demo_events:
  "events_since demo_world (snd (generate_java_code demo_env demo_args demo_world)) =
     [CallBuildParser ''python.gram'' False False,
      CallOpen ''Tokens'' ReadMode,
      CallGenerateTokenDefinitions (Handle ''Tokens'' ReadMode),
      CallClose (Handle ''Tokens'' ReadMode),
      CallOpen ''Parser.java'' WriteMode,
      CallJavaParserGenerator 10 1 2 3 (Handle ''Parser.java'' WriteMode) True,
      CallGenerate 40 ''python.gram'',
      CallClose (Handle ''Parser.java'' WriteMode)]"
  by (simp add: events_since_def generate_java_code_world
      build_java_parser_and_generator_world build_java_generator_run demo_defs)

subsection \<open>Verbosity flags\<close>

text \<open>
  C9. Whatever the verbosity level \<open>v\<close>, the one call of \<open>build_parser\<close> that a run of
  \<open>generate_java_code\<close> makes is on the grammar file, with the tokenizer flag
  \<open>v \<ge> 3\<close> and the parser flag \<open>v = 2 \<or> v \<ge> 4\<close>.
\<close>

theorem verbosity_flags_forwarded:
  "filter is_build_parser_call (events_since w (snd (generate_java_code E a w))) =
     [CallBuildParser (grammar_filename a) (verbose a \<ge> 3) (verbose a = 2 \<or> verbose a \<ge> 4)]"
  by (simp add: generate_java_code_events build_java_generator_no_build_parser_call
      split: sum.splits prod.splits)

text \<open>At level 3 the tokenizer flag is set and the parser flag is not; at level 1, neither.\<close>

theorem verbosity_flags_forwarded_witness:
  "filter is_build_parser_call
     (events_since demo_world
        (snd (generate_java_code demo_env (demo_args\<lparr>verbose := 3\<rparr>) demo_world))) =
     [CallBuildParser ''python.gram'' True False]
   \<and> filter is_build_parser_call
     (events_since demo_world
        (snd (generate_java_code demo_env (demo_args\<lparr>verbose := 1\<rparr>) demo_world))) =
     [CallBuildParser ''python.gram'' False False]"
  using verbosity_flags_forwarded [of demo_world demo_env "demo_args\<lparr>verbose := 3\<rparr>"]
    verbosity_flags_forwarded [of demo_world demo_env "demo_args\<lparr>verbose := 1\<rparr>"]
  by (simp add: demo_defs)

subsection \<open>Failure reporting\<close>

text \<open>
  With verbosity on, the handler re-raises the exception it caught, and prints nothing.
\<close>

lemma verbose_failure_reraised:
  assumes "verbose a \<noteq> 0"
    and "build_java_parser_and_generator E (grammar_filename a) (tokens_filename a)
           (output_arg a) (compile_extension a) (verbose a \<ge> 3)
           (verbose a = 2 \<or> verbose a \<ge> 4) (verbose a)
           (\<not> optimized a) (skip_actions a) w = (Inl err, w1)"
  shows "generate_java_code E a w = (Inl err, w1)"
  using assms by (simp add: generate_java_code_run)

lemma stderr_untouched:
  "stderr (snd (generate_java_code E a w)) = stderr w"
  by (simp add: generate_java_code_world build_java_parser_and_generator_world
      build_java_generator_stderr split: sum.splits prod.splits)

text \<open>
  C1. The claim is that, with verbosity 0, a failure of build or generation is reported on
  standard error as the exception's type and message and the line
  \<open>For full traceback, use -v\<close>, and the process exits with status 1. The code does not
  do that: the handler reads the name \<open>traceback\<close>, which the file never imports, so
  with verbosity 0 every exception that the handler catches is replaced by
  \<open>NameError\<close>, nothing is written to standard error by the driver, and
  \<open>sys.exit(1)\<close> is not reached.
\<close>

theorem quiet_failure_raises_NameError:
  assumes "verbose a = 0"
    and "fst (build_java_parser_and_generator E (grammar_filename a) (tokens_filename a)
               (output_arg a) (compile_extension a) (verbose a \<ge> 3)
               (verbose a = 2 \<or> verbose a \<ge> 4) (verbose a)
               (if optimized a then False else True) (skip_actions a) w) = Inl err"
    and "is_Exception err"
  shows "fst (generate_java_code E a w) = Inl (NameError ''traceback'')
         \<and> stderr (snd (generate_java_code E a w)) = stderr w"
proof -
  have "(if optimized a then False else True) = (\<not> optimized a)" by simp
  with assms(2) have "fst (build_java_parser_and_generator E (grammar_filename a)
             (tokens_filename a) (output_arg a) (compile_extension a) (verbose a \<ge> 3)
             (verbose a = 2 \<or> verbose a \<ge> 4) (verbose a)
             (\<not> optimized a) (skip_actions a) w) = Inl err" by simp
  then obtain w1 where "build_java_parser_and_generator E (grammar_filename a)
             (tokens_filename a) (output_arg a) (compile_extension a) (verbose a \<ge> 3)
             (verbose a = 2 \<or> verbose a \<ge> 4) (verbose a)
             (\<not> optimized a) (skip_actions a) w = (Inl err, w1)"
    by (metis prod.collapse)
  with assms(1,3) have "fst (generate_java_code E a w) = Inl (NameError ''traceback'')"
    by (simp add: generate_java_code_run)
  then show ?thesis by (simp add: stderr_untouched)
qed

text \<open>A missing grammar file, with verbosity 0.\<close>

theorem quiet_failure_raises_NameError_witness:
  "verbose (demo_args\<lparr>grammar_filename := ''missing.gram''\<rparr>) = 0
   \<and> fst (generate_java_code demo_env (demo_args\<lparr>grammar_filename := ''missing.gram''\<rparr>)
            demo_world) = Inl (NameError ''traceback'')
   \<and> stderr (snd (generate_java_code demo_env
                     (demo_args\<lparr>grammar_filename := ''missing.gram''\<rparr>) demo_world)) = []"
proof -
  let ?a = "demo_args\<lparr>grammar_filename := ''missing.gram''\<rparr>"
  have v: "verbose ?a = 0" by (simp add: demo_defs)
  have f: "fst (build_java_parser_and_generator demo_env (grammar_filename ?a)
               (tokens_filename ?a) (output_arg ?a) (compile_extension ?a) (verbose ?a \<ge> 3)
               (verbose ?a = 2 \<or> verbose ?a \<ge> 4) (verbose ?a)
               (if optimized ?a then False else True) (skip_actions ?a) demo_world)
           = Inl (FileNotFoundError ''missing.gram'')"
    by (simp add: demo_defs build_java_parser_and_generator_run)
  have e: "is_Exception (FileNotFoundError ''missing.gram'')" by simp
  show ?thesis
    using quiet_failure_raises_NameError [OF v f e] v by (simp add: demo_defs)
qed

subsection \<open>Flags without effect\<close>

text \<open>
  C3. Two runs that differ only in \<open>--compile-extension\<close> and \<open>--optimized\<close> have the
  same outcome and leave the same world: the same files, the same calls, the same returned
  objects or the same exception.
\<close>

theorem compile_extension_and_optimized_ignored:
  "generate_java_code E (a\<lparr>compile_extension := c, optimized := opt\<rparr>) w =
   generate_java_code E a w"
proof -
  let ?b = "a\<lparr>compile_extension := c, optimized := opt\<rparr>"
  have sel: "grammar_filename ?b = grammar_filename a" "tokens_filename ?b = tokens_filename a"
    "output_arg ?b = output_arg a" "skip_actions ?b = skip_actions a" "verbose ?b = verbose a"
    by simp_all
  show ?thesis
    unfolding generate_java_code_def handle_error_def build_java_parser_and_generator_def
      build_java_generator_def sel
    by (rule refl)
qed

subsection \<open>File handles\<close>

text \<open>
  C7. Whatever happens in \<open>build_java_generator\<close> (it returns, or an exception leaves
  \<open>open\<close>, \<open>generate_token_definitions\<close>, the constructor or \<open>generate\<close>), the
  handles that are open when it ends are those that were open when it began: each handle it
  opened has been closed.
\<close>

theorem handles_closed_on_every_path:
  "open_handles (snd (build_java_generator E g gf tf out ce vc ka sk w)) = open_handles w"
  by (simp add: build_java_generator_run split: sum.splits option.splits prod.splits)

text \<open>A run in which \<open>generate\<close> raises: both files were opened, and both are closed.\<close>

theorem handles_closed_on_every_path_witness:
  "fst (build_java_generator failing_env 10 ''python.gram'' ''Tokens'' ''Parser.java''
          False 0 True False demo_world) = Inl (OtherException ''GrammarError'' ''bad rule'')
   \<and> open_handles (snd (build_java_generator failing_env 10 ''python.gram'' ''Tokens''
          ''Parser.java'' False 0 True False demo_world)) = []"
  using handles_closed_on_every_path [of failing_env 10 "''python.gram''" "''Tokens''"
      "''Parser.java''" False 0 True False demo_world]
  by (simp add: demo_defs build_java_generator_run)

subsection \<open>A successful run\<close>




subsection \<open>The generator: its construction and its one call\<close>

lemma build_java_generator_generator_calls:
  assumes "CallGenerate gen' p'
             \<in> set (events_since w (snd (build_java_generator E g gf tf out ce vc ka sk w)))"
  shows "\<exists>text all_tokens exact_tok non_exact_tok gen.
           files w tf = Some text
         \<and> generate_token_definitions E text = Inr (all_tokens, exact_tok, non_exact_tok)
         \<and> JavaParserGenerator E g all_tokens exact_tok non_exact_tok (Handle out WriteMode) sk
             = Inr gen
         \<and> filter is_generator_call
             (events_since w (snd (build_java_generator E g gf tf out ce vc ka sk w))) =
             [CallJavaParserGenerator g all_tokens exact_tok non_exact_tok
                (Handle out WriteMode) sk,
              CallGenerate gen gf]"
  using assms
  by (auto simp add: build_java_generator_run events_since_def
      split: sum.splits option.splits prod.splits)

text \<open>
  C4. In a run that reaches generation (a call of \<open>generate\<close> is in its log), the calls
  that concern the generator are exactly two: the constructor, on the grammar that
  \<open>build_parser\<close> returned, the three token tables that \<open>generate_token_definitions\<close>
  returned, in that order, and the handle of the output file opened for writing, with
  \<open>skip_actions\<close> as the flag gives it; then \<open>generate\<close>, on the object the
  constructor returned, with the path of the grammar file.
\<close>

theorem generator_constructed_and_run_once:
  assumes "CallGenerate gen' p' \<in> set (events_since w (snd (generate_java_code E a w)))"
  shows "\<exists>grammar parser tokenizer text all_tokens exact_tok non_exact_tok gen.
           build_parser E (grammar_filename a) (verbose a \<ge> 3)
             (verbose a = 2 \<or> verbose a \<ge> 4) (files w) = Inr (grammar, parser, tokenizer)
         \<and> files w (tokens_filename a) = Some text
         \<and> generate_token_definitions E text = Inr (all_tokens, exact_tok, non_exact_tok)
         \<and> JavaParserGenerator E grammar all_tokens exact_tok non_exact_tok
              (Handle (output_arg a) WriteMode) (skip_actions a) = Inr gen
         \<and> filter is_generator_call (events_since w (snd (generate_java_code E a w))) =
             [CallJavaParserGenerator grammar all_tokens exact_tok non_exact_tok
                (Handle (output_arg a) WriteMode) (skip_actions a),
              CallGenerate gen (grammar_filename a)]"
proof (cases "build_parser E (grammar_filename a) (verbose a \<ge> 3)
                (verbose a = 2 \<or> verbose a \<ge> 4) (files w)")
  case (Inl e)
  with assms show ?thesis by (simp add: generate_java_code_events)
next
  case (Inr r)
  obtain g p t where r: "r = (g, p, t)" by (cases r) auto
  let ?evs = "events_since w (snd (build_java_generator E g (grammar_filename a)
             (tokens_filename a) (output_arg a) (compile_extension a) (verbose a)
             (\<not> optimized a) (skip_actions a) w))"
  from assms Inr r have "CallGenerate gen' p' \<in> set ?evs"
    by (simp add: generate_java_code_events)
  from build_java_generator_generator_calls [OF this]
  obtain toks all_tokens exact_tok non_exact_tok gen where
    "files w (tokens_filename a) = Some toks"
    "generate_token_definitions E toks = Inr (all_tokens, exact_tok, non_exact_tok)"
    "JavaParserGenerator E g all_tokens exact_tok non_exact_tok
       (Handle (output_arg a) WriteMode) (skip_actions a) = Inr gen"
    "filter is_generator_call ?evs =
       [CallJavaParserGenerator g all_tokens exact_tok non_exact_tok
          (Handle (output_arg a) WriteMode) (skip_actions a),
        CallGenerate gen (grammar_filename a)]"
    by blast
  with Inr r show ?thesis
    by (simp add: generate_java_code_events)
qed

theorem generator_constructed_and_run_once_witness:
  "CallGenerate 40 ''python.gram''
     \<in> set (events_since demo_world (snd (generate_java_code demo_env demo_args demo_world)))
   \<and> filter is_generator_call
       (events_since demo_world (snd (generate_java_code demo_env demo_args demo_world))) =
       [CallJavaParserGenerator 10 1 2 3 (Handle ''Parser.java'' WriteMode) True,
        CallGenerate 40 ''python.gram'']"
proof -
  have h: "CallGenerate 40 ''python.gram''
     \<in> set (events_since demo_world (snd (generate_java_code demo_env demo_args demo_world)))"
    by (simp add: demo_events)
  from generator_constructed_and_run_once [OF h] h show ?thesis
    by (simp add: demo_events)
qed

subsection \<open>The order of the calls\<close>

lemma build_java_generator_calls_prefix:
  "prefix (filter (\<lambda>c. \<not> is_close c)
       (map call_of (events_since w (snd (build_java_generator E g gf tf out ce vc ka sk w)))))
     [Open tf ReadMode, GenerateTokenDefinitions (Handle tf ReadMode), Open out WriteMode,
      Construct (Handle out WriteMode), Generate gf]"
  by (simp add: build_java_generator_run events_since_def
      split: sum.splits option.splits prod.splits)

lemma build_java_generator_calls_subseq:
  "subseq (map call_of (events_since w (snd (build_java_generator E g gf tf out ce vc ka sk w))))
     [Open tf ReadMode, GenerateTokenDefinitions (Handle tf ReadMode),
      Close (Handle tf ReadMode), Open out WriteMode,
      Construct (Handle out WriteMode), Generate gf, Close (Handle out WriteMode)]"
  by (simp add: build_java_generator_run events_since_def
      split: sum.splits option.splits prod.splits)

lemma build_java_generator_generate_after_tokens:
  assumes "Generate gf' \<in> set (map call_of
         (events_since w (snd (build_java_generator E g gf tf out ce vc ka sk w))))"
  shows "\<exists>toks k. files w tf = Some toks \<and> generate_token_definitions E toks = Inr k"
  using assms
  by (auto simp add: build_java_generator_run events_since_def
      split: sum.splits option.splits prod.splits)

text \<open>
  C5. The calls of a run begin with \<open>build_parser\<close> on the grammar file. Leaving the
  closing of files aside, they are an initial part of: \<open>build_parser\<close>, opening the
  tokens file, \<open>generate_token_definitions\<close> on its handle, opening the output file for
  writing, the constructor, \<open>generate\<close>. With the closing of the two files they are
  taken, in order, from the calls of a complete run, and no call is made twice. If
  \<open>generate\<close> is called, \<open>build_parser\<close> and \<open>generate_token_definitions\<close> have
  returned.
\<close>

theorem calls_in_fixed_order:
  "(\<exists>rest. map call_of (events_since w (snd (generate_java_code E a w))) =
       BuildParser (grammar_filename a) # rest)
   \<and> prefix (filter (\<lambda>c. \<not> is_close c)
              (map call_of (events_since w (snd (generate_java_code E a w)))))
        (full_run_calls (grammar_filename a) (tokens_filename a) (output_arg a))
   \<and> subseq (map call_of (events_since w (snd (generate_java_code E a w))))
        (full_run (grammar_filename a) (tokens_filename a) (output_arg a))
   \<and> distinct (map call_of (events_since w (snd (generate_java_code E a w))))
   \<and> (Generate (grammar_filename a)
         \<in> set (map call_of (events_since w (snd (generate_java_code E a w))))
       \<longrightarrow> (\<exists>g p t. build_parser E (grammar_filename a) (verbose a \<ge> 3)
                      (verbose a = 2 \<or> verbose a \<ge> 4) (files w) = Inr (g, p, t))
         \<and> (\<exists>toks k. files w (tokens_filename a) = Some toks
                      \<and> generate_token_definitions E toks = Inr k))"
proof -
  let ?cs = "map call_of (events_since w (snd (generate_java_code E a w)))"
  have hd: "\<exists>rest. ?cs = BuildParser (grammar_filename a) # rest"
    by (simp add: generate_java_code_events)
  have pre: "prefix (filter (\<lambda>c. \<not> is_close c) ?cs)
        (full_run_calls (grammar_filename a) (tokens_filename a) (output_arg a))"
    by (simp add: generate_java_code_events full_run_calls_def build_java_generator_calls_prefix
        split: sum.splits prod.splits)
  have sub: "subseq ?cs (full_run (grammar_filename a) (tokens_filename a) (output_arg a))"
    by (simp add: generate_java_code_events full_run_def build_java_generator_calls_subseq
        split: sum.splits prod.splits)
  have "distinct (full_run (grammar_filename a) (tokens_filename a) (output_arg a))"
    by (simp add: full_run_def)
  with sub have dist: "distinct ?cs" by (metis subseq_conv_nths distinct_nthsI)
  have ret: "Generate (grammar_filename a) \<in> set ?cs
       \<longrightarrow> (\<exists>g p t. build_parser E (grammar_filename a) (verbose a \<ge> 3)
                      (verbose a = 2 \<or> verbose a \<ge> 4) (files w) = Inr (g, p, t))
         \<and> (\<exists>toks k. files w (tokens_filename a) = Some toks
                      \<and> generate_token_definitions E toks = Inr k)"
  proof (cases "build_parser E (grammar_filename a) (verbose a \<ge> 3)
                (verbose a = 2 \<or> verbose a \<ge> 4) (files w)")
    case (Inl e)
    then show ?thesis by (simp add: generate_java_code_events)
  next
    case (Inr r)
    obtain g p t where r: "r = (g, p, t)" by (cases r) auto
    show ?thesis
    proof
      assume "Generate (grammar_filename a) \<in> set ?cs"
      with Inr r have "Generate (grammar_filename a) \<in> set (map call_of
         (events_since w (snd (build_java_generator E g (grammar_filename a)
            (tokens_filename a) (output_arg a) (compile_extension a) (verbose a)
            (\<not> optimized a) (skip_actions a) w))))"
        by (simp add: generate_java_code_events)
      from build_java_generator_generate_after_tokens [OF this] Inr r
      show "(\<exists>g p t. build_parser E (grammar_filename a) (verbose a \<ge> 3)
                      (verbose a = 2 \<or> verbose a \<ge> 4) (files w) = Inr (g, p, t))
         \<and> (\<exists>toks k. files w (tokens_filename a) = Some toks
                      \<and> generate_token_definitions E toks = Inr k)"
        by simp
    qed
  qed
  from hd pre sub dist ret show ?thesis by blast
qed

theorem calls_in_fixed_order_witness:
  "map call_of (events_since demo_world (snd (generate_java_code demo_env demo_args demo_world)))
     = full_run ''python.gram'' ''Tokens'' ''Parser.java''
   \<and> filter (\<lambda>c. \<not> is_close c)
        (map call_of (events_since demo_world
           (snd (generate_java_code demo_env demo_args demo_world))))
     = full_run_calls ''python.gram'' ''Tokens'' ''Parser.java''
   \<and> build_parser demo_env ''python.gram'' False False (files demo_world) = Inr (10, 20, 30)
   \<and> generate_token_definitions demo_env ''NAME'' = Inr (1, 2, 3)"
proof -
  have ev: "map call_of (events_since demo_world
       (snd (generate_java_code demo_env demo_args demo_world)))
     = full_run ''python.gram'' ''Tokens'' ''Parser.java''"
    by (simp add: demo_events full_run_def)
  have "build_parser demo_env ''python.gram'' False False (files demo_world) = Inr (10, 20, 30)"
    "generate_token_definitions demo_env ''NAME'' = Inr (1, 2, 3)"
    by (simp_all add: demo_defs)
  with calls_in_fixed_order [of demo_world demo_env demo_args] ev show ?thesis
    by (simp add: full_run_def full_run_calls_def)
qed

subsection \<open>The output file when generation fails\<close>




subsection \<open>The default of the output path\<close>

text \<open>
  Parsing leaves the attribute \<open>output\<close> alone as long as no word of the command line
  is \<open>-o\<close> or \<open>--output\<close>.
\<close>

lemma consume_keeps_output:
  assumes "consume specs pos argv ns = Inr ns'"
    and "''-o'' \<notin> set argv" and "''--output'' \<notin> set argv"
    and "''output'' \<notin> set pos"
    and "\<And>word s. find_option specs word = Some s \<Longrightarrow> word \<noteq> ''-o''
            \<Longrightarrow> word \<noteq> ''--output'' \<Longrightarrow> dest s \<noteq> ''output''"
  shows "ns' ''output'' = ns ''output''"
  using assms
proof (induction specs pos argv ns rule: consume.induct)
  case (1 specs pos ns)
  then show ?case by (simp split: if_splits)
next
  case (2 specs pos word rest ns)
  from "2.prems" have w: "word \<noteq> ''-o''" "word \<noteq> ''--output''"
    and r: "''-o'' \<notin> set rest" "''--output'' \<notin> set rest" by auto
  show ?case
  proof (cases "find_option specs word")
    case None
    with "2.prems"(1) have nd: "take 1 word \<noteq> ''-''"
      by (auto split: if_splits)
    from None nd "2.prems"(1) obtain d pos' where p: "pos = d # pos'"
      and c: "consume specs pos' rest (ns(d \<mapsto> StrValue word)) = Inr ns'"
      by (cases pos) auto
    from p "2.prems"(4) have d: "d \<noteq> ''output''" and p': "''output'' \<notin> set pos'" by auto
    have "ns' ''output'' = (ns(d \<mapsto> StrValue word)) ''output''"
      using "2.IH"(1) [OF None nd p c r p' "2.prems"(5)] .
    with d show ?thesis by simp
  next
    case (Some s)
    with "2.prems"(5) w have d: "dest s \<noteq> ''output''" by blast
    show ?thesis
    proof (cases "action s")
      case StoreTrue
      with Some "2.prems"(1)
      have c: "consume specs pos rest (ns(dest s \<mapsto> BoolValue True)) = Inr ns'" by simp
      have "ns' ''output'' = (ns(dest s \<mapsto> BoolValue True)) ''output''"
        using "2.IH"(3) [OF Some StoreTrue c r "2.prems"(4) "2.prems"(5)] .
      with d show ?thesis by simp
    next
      case Store
      with Some "2.prems"(1) obtain v rest' where rr: "rest = v # rest'"
        and c: "consume specs pos rest' (ns(dest s \<mapsto> StrValue v)) = Inr ns'"
        by (cases rest) auto
      from r rr have r': "''-o'' \<notin> set rest'" "''--output'' \<notin> set rest'" by auto
      have "ns' ''output'' = (ns(dest s \<mapsto> StrValue v)) ''output''"
        using "2.IH"(2) [OF Some Store rr c r' "2.prems"(4) "2.prems"(5)] .
      with d show ?thesis by simp
    qed
  qed
qed

lemma find_option_java_parser:
  assumes "find_option java_parser word = Some s"
    and "word \<noteq> ''-o''" and "word \<noteq> ''--output''"
  shows "dest s \<noteq> ''output''"
  using assms by (auto simp add: java_parser_def split: if_splits)

text \<open>
  C8. When the command line of the subcommand parses and none of its words is \<open>-o\<close> or
  \<open>--output\<close>, the output path is \<open>Parser.java\<close>.
\<close>

theorem output_defaults_to_Parser_java:
  assumes "parse_java_args v argv = Inr a"
    and "''-o'' \<notin> set argv" and "''--output'' \<notin> set argv"
  shows "output_arg a = ''Parser.java''"
proof -
  from assms(1) obtain ns where
    ns: "consume java_parser (positionals java_parser) argv (defaults java_parser) = Inr ns"
    and a: "namespace_args v ns = Some a"
    by (auto simp add: parse_java_args_def parse_args_def split: sum.splits option.splits)
  have pos: "''output'' \<notin> set (positionals java_parser)"
    by (simp add: positionals_def java_parser_def)
  have "ns ''output'' = defaults java_parser ''output''"
    using consume_keeps_output [OF ns assms(2) assms(3) pos] find_option_java_parser
    by blast
  then have "ns ''output'' = Some (StrValue ''Parser.java'')"
    by (simp add: defaults_def java_parser_def)
  with a show ?thesis
    by (auto simp add: namespace_args_def split: option.splits arg_value.splits)
qed

theorem output_defaults_to_Parser_java_witness:
  "parse_java_args 0 [''python.gram'', ''Tokens'', ''--skip-actions''] = Inr demo_args
   \<and> ''-o'' \<notin> set [''python.gram'', ''Tokens'', ''--skip-actions'']
   \<and> ''--output'' \<notin> set [''python.gram'', ''Tokens'', ''--skip-actions'']
   \<and> output_arg demo_args = ''Parser.java''"
proof -
  have p: "parse_java_args 0 [''python.gram'', ''Tokens'', ''--skip-actions''] = Inr demo_args"
    by (simp add: parse_java_args_def parse_args_def namespace_args_def positionals_def
        defaults_def java_parser_def demo_args_def)
  have n1: "''-o'' \<notin> set [''python.gram'', ''Tokens'', ''--skip-actions'']" by simp
  have n2: "''--output'' \<notin> set [''python.gram'', ''Tokens'', ''--skip-actions'']" by simp
  from output_defaults_to_Parser_java [OF p n1 n2] p n1 n2 show ?thesis by simp
qed

text \<open>With \<open>-o\<close>, the output path is the word that follows it.\<close>

lemma output_given_on_command_line:
  "parse_java_args 2 [''-o'', ''Out.java'', ''python.gram'', ''Tokens''] =
     Inr (demo_args\<lparr>output_arg := ''Out.java'', skip_actions := False, verbose := 2\<rparr>)"
  by (simp add: parse_java_args_def parse_args_def namespace_args_def positionals_def
        defaults_def java_parser_def demo_args_def)

subsection \<open>Objects passed through\<close>

lemma build_java_generator_renamed:
  assumes "generate_token_definitions E' = generate_token_definitions E"
    and "JavaParserGenerator E' (f g) = JavaParserGenerator E g"
    and "generate E' = generate E"
    and "os_refuses E' = os_refuses E"
  shows "build_java_generator E' (f g) gf tf out ce vc ka sk (rename_world f w) =
     (fst (build_java_generator E g gf tf out ce vc ka sk w),
      rename_world f (snd (build_java_generator E g gf tf out ce vc ka sk w)))"
  using assms
  by (simp add: build_java_generator_run rename_world_def
      split: sum.splits option.splits prod.splits)

text \<open>
  C10. When the driver returns, the grammar, parser and tokenizer it returns are those that
  \<open>build_parser\<close> returned. It neither reads nor changes them: for any renaming of the
  objects of the grammar builder (with a constructor of the generator that takes the renamed
  grammar as it took the grammar), the run on the renamed objects is the renamed run, with
  the same exception or the same objects renamed, the same files, and the same calls on the
  renamed objects.
\<close>

theorem objects_passed_through:
  assumes bp: "\<And>gf vt vp fs. build_parser E' gf vt vp fs =
                 (case build_parser E gf vt vp fs of
                    Inl e \<Rightarrow> Inl e
                  | Inr (g, p, t) \<Rightarrow> Inr (f g, fp p, ft t))"
    and gtd: "generate_token_definitions E' = generate_token_definitions E"
    and ctor: "\<And>g. JavaParserGenerator E' (f g) = JavaParserGenerator E g"
    and gen: "generate E' = generate E"
    and os: "os_refuses E' = os_refuses E"
  shows "(\<forall>g p t gen w'. generate_java_code E a w = (Inr (g, p, t, gen), w') \<longrightarrow>
            build_parser E (grammar_filename a) (verbose a \<ge> 3)
              (verbose a = 2 \<or> verbose a \<ge> 4) (files w) = Inr (g, p, t))
       \<and> generate_java_code E' a (rename_world f w) =
           (rename_result f fp ft (fst (generate_java_code E a w)),
            rename_world f (snd (generate_java_code E a w)))"
proof
  show "\<forall>g p t gen w'. generate_java_code E a w = (Inr (g, p, t, gen), w') \<longrightarrow>
            build_parser E (grammar_filename a) (verbose a \<ge> 3)
              (verbose a = 2 \<or> verbose a \<ge> 4) (files w) = Inr (g, p, t)"
    by (auto simp add: generate_java_code_run build_java_parser_and_generator_run
        split: sum.splits prod.splits if_splits)
next
  let ?bp = "build_parser E (grammar_filename a) (verbose a \<ge> 3)
              (verbose a = 2 \<or> verbose a \<ge> 4) (files w)"
  let ?ev = "CallBuildParser (grammar_filename a) (verbose a \<ge> 3)
              (verbose a = 2 \<or> verbose a \<ge> 4)"
  have w1: "rename_world f w\<lparr>trace := trace (rename_world f w) @ [?ev]\<rparr> =
            rename_world f (w\<lparr>trace := trace w @ [?ev]\<rparr>)"
    by (simp add: rename_world_def)
  have fl: "files (rename_world f w) = files w" by (simp add: rename_world_def)
  show "generate_java_code E' a (rename_world f w) =
           (rename_result f fp ft (fst (generate_java_code E a w)),
            rename_world f (snd (generate_java_code E a w)))"
  proof (cases ?bp)
    case (Inl e)
    then show ?thesis
      by (simp add: generate_java_code_run build_java_parser_and_generator_run bp fl w1)
  next
    case (Inr r)
    obtain g p t where r: "r = (g, p, t)" by (cases r) auto
    note bjg = build_java_generator_renamed [where f = f and g = g and E = E and E' = E', OF gtd ctor gen os]
    from Inr r show ?thesis
      by (simp add: generate_java_code_run build_java_parser_and_generator_run bp fl w1 bjg
          split: sum.splits prod.splits)
  qed
qed

theorem objects_passed_through_witness:
  "fst (generate_java_code demo_env demo_args demo_world) = Inr (10, 20, 30, 40)
   \<and> build_parser demo_env ''python.gram'' False False (files demo_world) = Inr (10, 20, 30)
   \<and> fst (generate_java_code renamed_env demo_args (rename_world Suc demo_world))
       = Inr (11, 21, 31, 40)"
proof -
  have bp: "\<And>gf vt vp fs. build_parser renamed_env gf vt vp fs =
                 (case build_parser demo_env gf vt vp fs of
                    Inl e \<Rightarrow> Inl e
                  | Inr (g, p, t) \<Rightarrow> Inr (Suc g, Suc p, Suc t))"
    by (simp add: renamed_env_def demo_defs split: option.splits)
  have gtd: "generate_token_definitions renamed_env = generate_token_definitions demo_env"
    by (simp add: renamed_env_def)
  have ctor: "\<And>g. JavaParserGenerator renamed_env (Suc g) = JavaParserGenerator demo_env g"
    by (simp add: renamed_env_def demo_defs)
  have gen: "generate renamed_env = generate demo_env"
    by (simp add: renamed_env_def)
  have os: "os_refuses renamed_env = os_refuses demo_env"
    by (simp add: renamed_env_def)
  have r: "fst (generate_java_code demo_env demo_args demo_world) = Inr (10, 20, 30, 40)"
    by (simp add: generate_java_code_run build_java_parser_and_generator_run
        build_java_generator_run demo_defs)
  have b: "build_parser demo_env ''python.gram'' False False (files demo_world)
             = Inr (10, 20, 30)"
    by (simp add: demo_defs)
  from objects_passed_through [where E' = renamed_env and E = demo_env and f = Suc and fp = Suc
      and ft = Suc and a = demo_args and w = demo_world, OF bp gtd ctor gen os]
  have "fst (generate_java_code renamed_env demo_args (rename_world Suc demo_world))
          = rename_result Suc Suc Suc (fst (generate_java_code demo_env demo_args demo_world))"
    by simp
  with r b show ?thesis by simp
qed

end
